theory Spec2Isabelle
  imports Complex_Main "HOL-Library.AList"
begin

section \<open>Python values and exceptions\<close>

text \<open>
  The engine of \<^verbatim>\<open>commons/genetics.py\<close> is embedded function by function.
  An exception is a value of \<open>error\<close>; a call that may raise returns \<open>error + 'a\<close>
  with \<open>Inl\<close> for the exception. A method that mutates its object and may raise
  afterwards returns the outcome together with the object as the exception left it.
  Python numbers (\<^verbatim>\<open>int\<close> and \<^verbatim>\<open>float\<close>) are rationals: rounding is not
  modelled, division by zero is.
\<close>

datatype error =
  ValueError | TypeError | AttributeError | IndexError | ZeroDivisionError
  | RecursionError | UnboundLocalError | OracleError

type_synonym number = rat
type_synonym gene = string

definition py_truediv :: "number \<Rightarrow> number \<Rightarrow> error + number" where
  "py_truediv a b = (if b = 0 then Inl ZeroDivisionError else Inr (a / b))"

text \<open>
  \<^verbatim>\<open>sorted(xs, key=k, reverse=True)\<close>: CPython reverses the list, sorts it with its
  stable ascending sort and reverses the result, so equal keys keep their input order.
\<close>

definition py_sorted :: "('a \<Rightarrow> number) \<Rightarrow> 'a list \<Rightarrow> 'a list" where
  "py_sorted key xs = sort_key key xs"

definition py_sorted_reverse :: "('a \<Rightarrow> number) \<Rightarrow> 'a list \<Rightarrow> 'a list" where
  "py_sorted_reverse key xs = rev (sort_key key (rev xs))"

text \<open>A list comprehension or \<^verbatim>\<open>map\<close> whose function may raise: the first exception ends it.\<close>

fun map_raise :: "('a \<Rightarrow> error + 'b) \<Rightarrow> 'a list \<Rightarrow> error + 'b list" where
  "map_raise f [] = Inr []"
| "map_raise f (x # xs) =
     (case f x of
        Inl e \<Rightarrow> Inl e
      | Inr y \<Rightarrow> (case map_raise f xs of Inl e \<Rightarrow> Inl e | Inr ys \<Rightarrow> Inr (y # ys)))"

section \<open>Individual\<close>

text \<open>
  The fields \<^verbatim>\<open>_genotype\<close>, \<^verbatim>\<open>_fitness\<close> and \<^verbatim>\<open>_rank\<close> are \<open>genotype\<close>,
  \<open>fitness\<close> and \<open>rank\<close>; \<open>attrs\<close> holds the numeric attributes attached to the instance
  after construction (\<^verbatim>\<open>setattr\<close>). The \<^verbatim>\<open>scores\<close> dictionary is never read or written by
  the engine and is left out; the search-space interface is the environment \<open>env\<close> below.
\<close>

record 'net individual =
  net :: 'net
  genotype :: "gene list"
  age :: number
  fitness :: number
  rank :: number
  attrs :: "(string \<times> number) list"

text \<open>\<^verbatim>\<open>Individual.__init__(net, genotype, age=0)\<close>.\<close>

definition Individual :: "'net \<Rightarrow> gene list \<Rightarrow> number \<Rightarrow> 'net individual" where
  "Individual n g a =
     \<lparr>net = n, genotype = g, age = a, fitness = 0, rank = 0, attrs = []\<rparr>"

text \<open>
  The functions of \<^verbatim>\<open>commons/utils.py\<close> and the search-space interface are not part of the
  sources at hand; they are parameters.
\<close>

record ('net, 'arch) env =
  genotype_is_valid :: "gene list \<Rightarrow> bool"
  genotype_to_architecture :: "gene list \<Rightarrow> 'arch"
  architecture_to_genotype :: "'arch \<Rightarrow> gene list"
  query_with_architecture :: "'arch \<Rightarrow> error + 'net"
  generate_random_samples :: "nat \<Rightarrow> error + ('net list \<times> 'arch list)"

text \<open>\<^verbatim>\<open>Individual.update_net\<close>: the net is looked up again from the genotype.\<close>

definition update_net ::
  "('net, 'arch) env \<Rightarrow> 'net individual \<Rightarrow> (error + unit) \<times> 'net individual" where
  "update_net interface self =
     (let genotype_arch_str = genotype_to_architecture interface (genotype self)
      in case query_with_architecture interface genotype_arch_str of
           Inl e \<Rightarrow> (Inl e, self)
         | Inr n \<Rightarrow> (Inr (), self\<lparr>net := n\<rparr>))"

text \<open>
  \<^verbatim>\<open>update_genotype\<close> is declared with \<^verbatim>\<open>@genotype.setter\<close>: the class attribute of that name
  is a property whose getter is the one of \<^verbatim>\<open>genotype\<close> and whose setter is the function below,
  run by the assignment \<^verbatim>\<open>individual.update_genotype = new_genotype\<close>. The test on
  \<^verbatim>\<open>genotype_is_valid\<close> builds a \<^verbatim>\<open>ValueError\<close> object and drops it (there is no
  \<^verbatim>\<open>raise\<close>); the assignment and \<^verbatim>\<open>update_net\<close> follow in both cases.
\<close>

definition update_genotype ::
  "('net, 'arch) env \<Rightarrow> 'net individual \<Rightarrow> gene list \<Rightarrow> (error + unit) \<times> 'net individual" where
  "update_genotype interface self new_genotype =
     (let dropped = (if \<not> genotype_is_valid interface new_genotype then Some ValueError else None);
          assigned = self\<lparr>genotype := new_genotype\<rparr>
      in update_net interface assigned)"

text \<open>
  Reading \<^verbatim>\<open>individual.update_genotype\<close> runs the getter and yields the genotype list;
  \<^verbatim>\<open>individual.update_genotype(...)\<close> then calls that list, and a list is not callable.
\<close>

definition update_genotype_get :: "'net individual \<Rightarrow> gene list" where
  "update_genotype_get self = genotype self"

definition call_list :: "gene list \<Rightarrow> 'a \<Rightarrow> error + 'b" where
  "call_list f args = Inl TypeError"

text \<open>\<^verbatim>\<open>individual[locus:]\<close>: the class defines no \<^verbatim>\<open>__getitem__\<close>.\<close>

definition individual_getitem :: "'net individual \<Rightarrow> int \<Rightarrow> error + gene list" where
  "individual_getitem self start = Inl TypeError"

text \<open>\<^verbatim>\<open>Individual.update_fitness(metric)\<close>; a failure of the metric propagates.\<close>

definition Individual_update_fitness ::
  "'net individual \<Rightarrow> ('net \<Rightarrow> error + number) \<Rightarrow> error + 'net individual" where
  "Individual_update_fitness self metric =
     (case metric (net self) of
        Inl e \<Rightarrow> Inl e
      | Inr v \<Rightarrow> Inr (self\<lparr>fitness := v\<rparr>))"

text \<open>
  \<^verbatim>\<open>getattr(individual, name)\<close> and \<^verbatim>\<open>setattr(individual, name, value)\<close> for the names of
  numeric attributes: \<^verbatim>\<open>fitness\<close> and \<^verbatim>\<open>rank\<close> are properties without a setter over
  \<^verbatim>\<open>_fitness\<close> and \<^verbatim>\<open>_rank\<close>, \<^verbatim>\<open>age\<close> is a plain attribute, any other name is looked up
  among the attached attributes. The names of the non-numeric members (the net, the genotype,
  the methods) are not score names and are not modelled.
\<close>

definition individual_getattr :: "'net individual \<Rightarrow> string \<Rightarrow> error + number" where
  "individual_getattr self name =
     (if name = ''fitness'' \<or> name = ''_fitness'' then Inr (fitness self)
      else if name = ''rank'' \<or> name = ''_rank'' then Inr (rank self)
      else if name = ''age'' then Inr (age self)
      else (case map_of (attrs self) name of
              None \<Rightarrow> Inl AttributeError
            | Some v \<Rightarrow> Inr v))"

definition individual_setattr :: "'net individual \<Rightarrow> string \<Rightarrow> number \<Rightarrow> error + 'net individual" where
  "individual_setattr self name v =
     (if name = ''fitness'' \<or> name = ''rank'' then Inl AttributeError
      else if name = ''_fitness'' then Inr (self\<lparr>fitness := v\<rparr>)
      else if name = ''_rank'' then Inr (self\<lparr>rank := v\<rparr>)
      else if name = ''age'' then Inr (self\<lparr>age := v\<rparr>)
      else Inr (self\<lparr>attrs := AList.update name v (attrs self)\<rparr>))"

text \<open>\<^verbatim>\<open>Individual.update_ranking(new_rank)\<close>.\<close>

definition Individual_update_ranking :: "'net individual \<Rightarrow> number \<Rightarrow> 'net individual" where
  "Individual_update_ranking self new_rank = self\<lparr>rank := new_rank\<rparr>"

section \<open>Population\<close>

text \<open>
  \<open>individuals\<close> is \<^verbatim>\<open>_population\<close>, a list of candidate objects: each position of the list
  is one object, and a reference to a member is its position. \<open>pattrs\<close> holds the attributes
  \<^verbatim>\<open>min_<score>\<close> and \<^verbatim>\<open>max_<score>\<close> that \<^verbatim>\<open>set_extremes\<close> attaches to the population.
\<close>

record 'net population =
  individuals :: "'net individual list"
  pattrs :: "(string \<times> number) list"

text \<open>
  \<^verbatim>\<open>Population.update_ranking\<close>: the members are sorted by descending fitness, and the
  loop over \<^verbatim>\<open>enumerate(sorted_individuals)\<close> writes each position of that order into the
  member it refers to.
\<close>

definition update_ranking :: "'net population \<Rightarrow> 'net population" where
  "update_ranking self =
     (let sorted_individuals =
            py_sorted_reverse (\<lambda>i. fitness (individuals self ! i)) [0..<length (individuals self)]
      in self\<lparr>individuals :=
           fold (\<lambda>(ranking, i) inds. inds[i := Individual_update_ranking (inds ! i) (of_nat ranking)])
                (enumerate 0 sorted_individuals) (individuals self)\<rparr>)"


text \<open>
  \<^verbatim>\<open>Population.update_population\<close>. The members of the list are candidates by their type,
  so the \<^verbatim>\<open>isinstance\<close> test succeeds on each.
\<close>

definition isinstance_Individual :: "'net individual \<Rightarrow> bool" where
  "isinstance_Individual el = True"

definition update_population ::
  "'net population \<Rightarrow> 'net individual list \<Rightarrow> (error + unit) \<times> 'net population" where
  "update_population self new_population =
     (if list_all isinstance_Individual new_population
      then (Inr (), self\<lparr>individuals := new_population\<rparr>)
      else (Inl ValueError, self))"

text \<open>
  \<^verbatim>\<open>Population.update_fitness\<close>: a plain loop over the members. When the metric raises, the
  loop stops there; the members already visited keep the fitness written into them.
\<close>

fun update_fitness_loop ::
  "('net \<Rightarrow> error + number) \<Rightarrow> 'net individual list \<Rightarrow> (error + unit) \<times> 'net individual list" where
  "update_fitness_loop fitness_function [] = (Inr (), [])"
| "update_fitness_loop fitness_function (x # xs) =
     (case Individual_update_fitness x fitness_function of
        Inl e \<Rightarrow> (Inl e, x # xs)
      | Inr x' \<Rightarrow>
          (case update_fitness_loop fitness_function xs of
             (outcome, xs') \<Rightarrow> (outcome, x' # xs')))"

definition update_fitness ::
  "'net population \<Rightarrow> ('net \<Rightarrow> error + number) \<Rightarrow> (error + unit) \<times> 'net population" where
  "update_fitness self fitness_function =
     (case update_fitness_loop fitness_function (individuals self) of
        (outcome, inds) \<Rightarrow> (outcome, self\<lparr>individuals := inds\<rparr>))"

text \<open>\<^verbatim>\<open>getattr(self, name)\<close> on the population, for the names \<^verbatim>\<open>min_<score>\<close> and \<^verbatim>\<open>max_<score>\<close>.\<close>

definition population_getattr :: "'net population \<Rightarrow> string \<Rightarrow> error + number" where
  "population_getattr self name =
     (case map_of (pattrs self) name of
        None \<Rightarrow> Inl AttributeError
      | Some v \<Rightarrow> Inr v)"

text \<open>
  \<^verbatim>\<open>Population.set_extremes\<close>: \<^verbatim>\<open>sorted\<close> first computes the key of every member, then
  sorts ascending; the extremes are read from the first and the last member.
\<close>

definition set_extremes :: "'net population \<Rightarrow> string \<Rightarrow> (error + unit) \<times> 'net population" where
  "set_extremes self score =
     (case map_raise (\<lambda>el. individual_getattr el score) (individuals self) of
        Inl e \<Rightarrow> (Inl e, self)
      | Inr keys \<Rightarrow>
          (let sorted_population = map fst (py_sorted snd (zip (individuals self) keys))
           in case sorted_population of
                [] \<Rightarrow> (Inl IndexError, self)
              | first # _ \<Rightarrow>
                  (case individual_getattr first score of
                     Inl e \<Rightarrow> (Inl e, self)
                   | Inr min_value \<Rightarrow>
                       (case individual_getattr (last sorted_population) score of
                          Inl e \<Rightarrow> (Inl e, self)
                        | Inr max_value \<Rightarrow>
                            (Inr (), self\<lparr>pattrs :=
                               AList.update (''min_'' @ score) min_value
                                 (AList.update (''max_'' @ score) max_value (pattrs self))\<rparr>)))))"

text \<open>
  The local function \<^verbatim>\<open>minmax_individual\<close> of \<^verbatim>\<open>normalize_scores\<close>; the quotient is
  computed before \<^verbatim>\<open>setattr\<close> runs.
\<close>

definition minmax_individual ::
  "string \<Rightarrow> number \<Rightarrow> number \<Rightarrow> 'net individual \<Rightarrow> error + 'net individual" where
  "minmax_individual score min_value max_value el =
     (let new_individual = el
      in case individual_getattr el score of
           Inl e \<Rightarrow> Inl e
         | Inr v \<Rightarrow>
             (case py_truediv (v - min_value) (max_value - min_value) of
                Inl e \<Rightarrow> Inl e
              | Inr q \<Rightarrow> individual_setattr new_individual score q))"

text \<open>
  The body of the \<^verbatim>\<open>try\<close> block of \<^verbatim>\<open>normalize_scores\<close>. The value is \<open>None\<close> when the
  method falls off its end and \<open>Some\<close> of the new list when it returns it.
\<close>

definition normalize_try ::
  "'net population \<Rightarrow> string \<Rightarrow> bool \<Rightarrow> (error + 'net individual list option) \<times> 'net population" where
  "normalize_try self score inplace =
     (case population_getattr self (''min_'' @ score) of
        Inl e \<Rightarrow> (Inl e, self)
      | Inr min_value \<Rightarrow>
          (case population_getattr self (''max_'' @ score) of
             Inl e \<Rightarrow> (Inl e, self)
           | Inr max_value \<Rightarrow>
               (let modified_individuals = individuals self
                in case map_raise (minmax_individual score min_value max_value) modified_individuals of
                     Inl e \<Rightarrow> (Inl e, self)
                   | Inr new_population \<Rightarrow>
                       (if inplace
                        then (case update_population self new_population of
                                (Inl e, s) \<Rightarrow> (Inl e, s)
                              | (Inr u, s) \<Rightarrow> (Inr None, s))
                        else (Inr (Some new_population), self)))))"

text \<open>
  \<^verbatim>\<open>Population.normalize_scores(score, inplace)\<close>. The handler of \<^verbatim>\<open>AttributeError\<close> sets
  the extremes and calls the method again with the score alone, so with \<^verbatim>\<open>inplace=True\<close>,
  and drops what that call returns. The first argument is the number of nested calls the
  interpreter still allows; Python raises \<^verbatim>\<open>RecursionError\<close> when it is used up.
\<close>

fun normalize_scores ::
  "nat \<Rightarrow> 'net population \<Rightarrow> string \<Rightarrow> bool \<Rightarrow> (error + 'net individual list option) \<times> 'net population" where
  "normalize_scores 0 self score inplace = (Inl RecursionError, self)"
| "normalize_scores (Suc depth) self score inplace =
     (case normalize_try self score inplace of
        (outcome, s) \<Rightarrow>
          (if outcome = Inl AttributeError
           then (case set_extremes s score of
                   (Inl e, s') \<Rightarrow> (Inl e, s')
                 | (Inr u, s') \<Rightarrow>
                     (case normalize_scores depth s' score True of
                        (Inl e, s'') \<Rightarrow> (Inl e, s'')
                      | (Inr r, s'') \<Rightarrow> (Inr None, s'')))
           else (outcome, s)))"

text \<open>
  \<^verbatim>\<open>generate_population\<close>: twenty samples are requested, and \<^verbatim>\<open>zip\<close> pairs what the
  interface returned.
\<close>

definition generate_population ::
  "('net, 'arch) env \<Rightarrow> ('net \<Rightarrow> gene list \<Rightarrow> 'i) \<Rightarrow> error + 'i list" where
  "generate_population searchspace_interface individual_cls =
     (case generate_random_samples searchspace_interface 20 of
        Inl e \<Rightarrow> Inl e
      | Inr (architectures, cells) \<Rightarrow>
          (let genotypes = map (architecture_to_genotype searchspace_interface) cells
           in Inr (map (\<lambda>(n, g). individual_cls n g) (zip architectures genotypes))))"

text \<open>
  \<^verbatim>\<open>Population.__init__\<close>, as the value it binds to \<^verbatim>\<open>_population\<close>. The argument
  \<^verbatim>\<open>init_population\<close> is a \<^verbatim>\<open>bool\<close> or a collection of any objects; Python's truth test on
  it is \<open>truthy\<close>.
\<close>

datatype 'a init_population = PyBool bool | PyList "'a list"

fun truthy :: "'a init_population \<Rightarrow> bool" where
  "truthy (PyBool b) = b"
| "truthy (PyList xs) = (xs \<noteq> [])"

datatype ('i, 'a) stored = Generated "'i list" | Supplied "'a init_population"

definition Population_init ::
  "('net, 'arch) env \<Rightarrow> ('net \<Rightarrow> gene list \<Rightarrow> 'i) \<Rightarrow> 'a init_population \<Rightarrow> error + ('i, 'a) stored" where
  "Population_init space individual_cls init_population =
     (if truthy init_population
      then (case generate_population space individual_cls of
              Inl e \<Rightarrow> Inl e
            | Inr generated \<Rightarrow> Inr (Generated generated))
      else Inr (Supplied init_population))"

section \<open>Genetic\<close>

text \<open>
  The random generator of the process is a sequence \<open>rng\<close> of raw draws, read in the
  order in which the code draws. \<^verbatim>\<open>np.random.randint(low, high)\<close> raises when the range is
  empty; \<^verbatim>\<open>np.random.random()\<close> is a multiple of \<open>2 ^ 53\<close> in the unit interval.
\<close>

record genetic =
  genome :: "gene set"
  strategy :: string
  tournament_size :: int
  cross_probability :: number

definition np_random_randint :: "nat \<Rightarrow> int \<Rightarrow> int \<Rightarrow> error + int" where
  "np_random_randint draw low high =
     (if high \<le> low then Inl ValueError else Inr (low + int draw mod (high - low)))"

definition np_random_random :: "nat \<Rightarrow> number" where
  "np_random_random draw = of_nat (draw mod 2 ^ 53) / 2 ^ 53"

text \<open>
  \<^verbatim>\<open>np.random.choice(a, size)\<close> on a list of objects: a one-dimensional array, sampled with
  replacement. An empty array raises unless no sample is asked for.
\<close>

definition np_random_choice :: "(nat \<Rightarrow> nat) \<Rightarrow> 'a list \<Rightarrow> int \<Rightarrow> error + 'a list" where
  "np_random_choice rng a sz =
     (if sz < 0 then Inl ValueError
      else if sz = 0 then Inr []
      else if a = [] then Inl ValueError
      else Inr (map (\<lambda>k. a ! (rng k mod length a)) [0..<nat sz]))"

text \<open>
  \<^verbatim>\<open>np.random.choice(a, size)\<close> on a Python \<^verbatim>\<open>set\<close>: \<^verbatim>\<open>np.array\<close> wraps the set in an
  array of dimension zero, which is neither one-dimensional nor an integer, and the call
  raises \<^verbatim>\<open>ValueError\<close>.
\<close>

definition np_random_choice_set :: "'a set \<Rightarrow> int \<Rightarrow> error + 'b" where
  "np_random_choice_set a sz = Inl ValueError"

text \<open>
  \<^verbatim>\<open>set.difference(gene)\<close> iterates its argument: a string yields its characters, each a
  string of length one.
\<close>

definition set_difference :: "gene set \<Rightarrow> gene \<Rightarrow> gene set" where
  "set_difference s g = s - (\<lambda>c. [c]) ` set g"

text \<open>
  \<^verbatim>\<open>Genetic.tournament\<close>; \<^verbatim>\<open>population\<close> is the list of the members, the sequence that
  \<^verbatim>\<open>np.random.choice\<close> samples from.
\<close>

definition tournament :: "genetic \<Rightarrow> (nat \<Rightarrow> nat) \<Rightarrow> 'a list \<Rightarrow> error + 'a list" where
  "tournament self rng population = np_random_choice rng population (tournament_size self)"

text \<open>
  \<^verbatim>\<open>Genetic.mutate\<close>. The loop carries the copy, whose genotype list it writes in place, and
  the local \<^verbatim>\<open>mutant_genotype\<close>, unbound until the first round; \<open>k\<close> counts the draws made.
\<close>

fun mutate_loop ::
  "genetic \<Rightarrow> (nat \<Rightarrow> nat) \<Rightarrow> nat \<Rightarrow> nat \<Rightarrow> 'net individual \<Rightarrow> gene list option
   \<Rightarrow> error + ('net individual \<times> gene list option)" where
  "mutate_loop self rng k 0 mutant_individual bound = Inr (mutant_individual, bound)"
| "mutate_loop self rng k (Suc n) mutant_individual bound =
     (let mutant_genotype = genotype mutant_individual
      in case np_random_randint (rng k) 0 (int (length (genotype mutant_individual))) of
           Inl e \<Rightarrow> Inl e
         | Inr mutant_locus \<Rightarrow>
             (let mutant_gene = mutant_genotype ! nat mutant_locus;
                  mutations = set_difference (genome self) mutant_gene
              in case np_random_choice_set mutations 1 of
                   Inl e \<Rightarrow> Inl e
                 | Inr new_gene \<Rightarrow>
                     (let written = mutant_genotype[nat mutant_locus := new_gene]
                      in mutate_loop self rng (k + 2) n
                           (mutant_individual\<lparr>genotype := written\<rparr>) (Some written))))"

definition mutate ::
  "genetic \<Rightarrow> (nat \<Rightarrow> nat) \<Rightarrow> 'net individual \<Rightarrow> int \<Rightarrow> error + 'net individual" where
  "mutate self rng el n_loci =
     (let mutant_individual = el
      in case mutate_loop self rng 0 (nat n_loci) mutant_individual None of
           Inl e \<Rightarrow> Inl e
         | Inr (mutant, bound) \<Rightarrow>
             (let f = update_genotype_get mutant
              in case bound of
                   None \<Rightarrow> Inl UnboundLocalError
                 | Some mutant_genotype \<Rightarrow> call_list f mutant_genotype))"

text \<open>\<^verbatim>\<open>Genetic.recombine\<close>; \<^verbatim>\<open>n_parts\<close> is not read.\<close>

definition recombine ::
  "genetic \<Rightarrow> (nat \<Rightarrow> nat) \<Rightarrow> 'net individual list \<Rightarrow> int \<Rightarrow> error + 'net individual" where
  "recombine self rng parents n_parts =
     (if length parents \<noteq> 2 then Inl ValueError
      else
        (let individual1 = parents ! 0;
             individual2 = parents ! 1;
             recombinant = individual1
         in case np_random_randint (rng 0) 0 (int (length (genotype individual1))) of
              Inl e \<Rightarrow> Inl e
            | Inr recombination_locus \<Rightarrow>
                (let realization = np_random_random (rng 1)
                 in case (if realization < cross_probability self
                          then (case individual_getitem individual2 recombination_locus of
                                  Inl e \<Rightarrow> Inl e
                                | Inr suffix \<Rightarrow>
                                    Inr (take (nat recombination_locus) (genotype individual1) @ suffix))
                          else (case individual_getitem individual1 recombination_locus of
                                  Inl e \<Rightarrow> Inl e
                                | Inr suffix \<Rightarrow>
                                    Inr (take (nat recombination_locus) (genotype individual2) @ suffix)))
                    of
                      Inl e \<Rightarrow> Inl e
                    | Inr recombinant_genotype \<Rightarrow>
                        call_list (update_genotype_get recombinant) recombinant_genotype)))"

section \<open>Example inputs\<close>

text \<open>
  Concrete inputs at which the functions above are evaluated below: a generator whose raw
  draws are all zero, an operator set over the alphabet \<open>{a, b}\<close>, candidates with a
  given genotype or fitness, an interface whose nets are numbers, and a metric that
  fails on the net \<open>0\<close>.
\<close>

definition rng_zero :: "nat \<Rightarrow> nat" where
  "rng_zero k = 0"

definition genetic_ab :: genetic where
  "genetic_ab =
     \<lparr>genome = {''a'', ''b''}, strategy = ''comma'', tournament_size = 5, cross_probability = 1 / 2\<rparr>"

definition candidate :: "gene list \<Rightarrow> nat individual" where
  "candidate g = Individual 1 g 0"

definition scored :: "number \<Rightarrow> nat individual" where
  "scored v = (Individual 1 [''a'', ''b''] 0)\<lparr>fitness := v\<rparr>"

definition fresh_individual :: "nat \<Rightarrow> gene list \<Rightarrow> nat individual" where
  "fresh_individual n g = Individual n g 0"

definition example_env :: "(nat, gene list) env" where
  "example_env =
     \<lparr>genotype_is_valid = (\<lambda>g. length g = 2),
      genotype_to_architecture = (\<lambda>g. g),
      architecture_to_genotype = (\<lambda>a. a),
      query_with_architecture = (\<lambda>a. Inr (length a)),
      generate_random_samples = (\<lambda>n. Inr (replicate n 1, replicate n [''a'', ''b'']))\<rparr>"

definition inverse_metric :: "nat \<Rightarrow> error + number" where
  "inverse_metric n = py_truediv 1 (of_nat n)"

section \<open>Properties\<close>

subsection \<open>Mutation\<close>

lemma mutate_loop_raises: "0 < n \<Longrightarrow> isl (mutate_loop self rng k n el bound)"
  by (cases n) (auto simp: Let_def np_random_choice_set_def split: sum.splits)

text \<open>
  Whatever the operator set, the draws, the candidate and the number of loci,
  \<^verbatim>\<open>mutate\<close> ends in an exception: a round of the loop stops at \<^verbatim>\<open>np.random.choice\<close> on a
  set, no round leaves \<^verbatim>\<open>mutant_genotype\<close> unbound, and the last line calls a list.
\<close>

lemma mutate_never_returns: "isl (mutate self rng el n_loci)"
proof (cases "0 < nat n_loci")
  case False
  then show ?thesis by (simp add: mutate_def)
next
  case True
  then have "isl (mutate_loop self rng 0 (nat n_loci) el None)"
    by (rule mutate_loop_raises)
  then show ?thesis
    by (auto simp: mutate_def split: sum.splits)
qed


text \<open>
  Claim C1: for a candidate over an alphabet of at least two genes, \<^verbatim>\<open>mutate\<close> with one
  locus returns a mutated candidate whose genotype differs from the input in exactly one
  position. The code does not: on the candidate with genotype \<open>[a, b]\<close> over the alphabet
  \<open>{a, b}\<close> the call raises \<^verbatim>\<open>ValueError\<close> and returns no candidate.
\<close>

theorem mutate_example:
  "mutate genetic_ab rng_zero (candidate [''a'', ''b'']) 1 = Inl ValueError"
  by (simp add: mutate_def candidate_def Individual_def np_random_randint_def
      np_random_choice_set_def rng_zero_def)


subsection \<open>Replacing a genotype\<close>

text \<open>
  Claim C2: replacing the genotype fails when the new genotype is not valid, and otherwise
  sets the genotype and refreshes the net. The code does not fail: for a genotype that
  the validity check rejects, the setter stores it and refreshes the net all the same.
\<close>

theorem update_genotype_unchecked:
  "\<not> genotype_is_valid interface new_genotype \<Longrightarrow>
   query_with_architecture interface (genotype_to_architecture interface new_genotype) = Inr n \<Longrightarrow>
   update_genotype interface self new_genotype = (Inr (), self\<lparr>genotype := new_genotype, net := n\<rparr>)"
  by (simp add: update_genotype_def update_net_def)

theorem update_genotype_unchecked_witness:
  "\<not> genotype_is_valid example_env [''a'']
   \<and> query_with_architecture example_env (genotype_to_architecture example_env [''a'']) = Inr 1
   \<and> update_genotype example_env (candidate [''a'', ''b'']) [''a''] = (Inr (), candidate [''a''])"
  using update_genotype_unchecked [of example_env "[''a'']" 1 "candidate [''a'', ''b'']"]
  by (simp add: example_env_def candidate_def Individual_def)


subsection \<open>Recombination\<close>

text \<open>
  Whatever its arguments, \<^verbatim>\<open>recombine\<close> ends in an exception: past the test of the
  number of parents and the draw of the locus, it subscripts a candidate object.
\<close>

lemma recombine_never_returns: "isl (recombine self rng parents n_parts)"
  by (auto simp: recombine_def Let_def individual_getitem_def call_list_def split: sum.splits)


text \<open>
  Claim C3: for two parents of equal genotype length the recombinant's genotype is a
  prefix of one parent followed by the suffix of the other. The code returns no
  recombinant: on the parents \<open>[a, b]\<close> and \<open>[b, a]\<close> the call raises \<^verbatim>\<open>TypeError\<close>.
\<close>

theorem recombine_example:
  "recombine genetic_ab rng_zero [candidate [''a'', ''b''], candidate [''b'', ''a'']] 2 = Inl TypeError"
  by (simp add: recombine_def candidate_def Individual_def np_random_randint_def
      individual_getitem_def rng_zero_def Let_def)


text \<open>
  Claim C4, as amended: given a number of parents other than two, \<^verbatim>\<open>recombine\<close> fails
  with the \<^verbatim>\<open>ValueError\<close> of its arity test. Nothing is said of two parents whose genotype
  lengths differ: the code compares no lengths.
\<close>

theorem recombine_arity:
  "length parents \<noteq> 2 \<Longrightarrow> recombine self rng parents n_parts = Inl ValueError"
  by (simp add: recombine_def)

theorem recombine_arity_witness:
  "length [candidate [''a'', ''b'']] \<noteq> 2
   \<and> recombine genetic_ab rng_zero [candidate [''a'', ''b'']] 2 = Inl ValueError
   \<and> length [candidate [''a'', ''b''], candidate [''b'', ''a''], candidate [''a'', ''a'']] \<noteq> 2
   \<and> recombine genetic_ab rng_zero
        [candidate [''a'', ''b''], candidate [''b'', ''a''], candidate [''a'', ''a'']] 2 = Inl ValueError"
  using recombine_arity [of "[candidate [''a'', ''b'']]" genetic_ab rng_zero 2]
    recombine_arity [of "[candidate [''a'', ''b''], candidate [''b'', ''a''], candidate [''a'', ''a'']]"
      genetic_ab rng_zero 2]
  by simp


text \<open>
  The claim as stated asks for a validation error on two parents of lengths one and two;
  the exception there is the \<^verbatim>\<open>TypeError\<close> of the subscript, the same as for equal lengths.
\<close>

theorem recombine_mismatch_counterexample:
  "recombine genetic_ab rng_zero [candidate [''a''], candidate [''a'', ''b'']] 2 = Inl TypeError"
  by (simp add: recombine_def candidate_def Individual_def np_random_randint_def
      individual_getitem_def rng_zero_def Let_def)


subsection \<open>Normalisation\<close>

lemma map_raise_const:
  "\<forall>x \<in> set xs. f x = Inr v \<Longrightarrow> map_raise f xs = Inr (map (\<lambda>x. v) xs)"
  by (induction xs) auto

lemma map_raise_first_error:
  "xs \<noteq> [] \<Longrightarrow> f (hd xs) = Inl e \<Longrightarrow> map_raise f xs = Inl e"
  by (cases xs) auto

lemma sorted_population_set:
  "length keys = length inds \<Longrightarrow> set (map fst (py_sorted snd (zip inds keys))) = set inds"
proof -
  assume "length keys = length inds"
  then have "map fst (zip inds keys) = inds" by simp
  then have "set inds = fst ` set (zip inds keys)" by (metis set_map)
  then show ?thesis by (simp add: py_sorted_def)
qed

lemma set_extremes_const:
  assumes ne: "individuals self \<noteq> []"
    and same: "\<forall>x \<in> set (individuals self). individual_getattr x score = Inr v"
  shows "set_extremes self score =
    (Inr (), self\<lparr>pattrs := AList.update (''min_'' @ score) v
                         (AList.update (''max_'' @ score) v (pattrs self))\<rparr>)"
proof -
  let ?keys = "map (\<lambda>x. v) (individuals self)"
  let ?sorted = "map fst (py_sorted snd (zip (individuals self) ?keys))"
  have keys: "map_raise (\<lambda>el. individual_getattr el score) (individuals self) = Inr ?keys"
    using same by (rule map_raise_const)
  have s: "set ?sorted = set (individuals self)"
    by (rule sorted_population_set) simp
  then have nonempty: "?sorted \<noteq> []" using ne by auto
  then obtain first rest where c: "?sorted = first # rest" by (cases ?sorted) auto
  have "first \<in> set ?sorted" using c by simp
  then have f: "individual_getattr first score = Inr v" using s same by blast
  have "last ?sorted \<in> set ?sorted" using nonempty by (rule last_in_set)
  then have l: "individual_getattr (last ?sorted) score = Inr v" using s same by blast
  show ?thesis
    unfolding set_extremes_def keys Let_def using c f l by simp
qed


text \<open>
  Claim C5: on a population whose members all have the same value of the score,
  \<^verbatim>\<open>normalize_scores\<close> raises no unhandled division error. The code does: on a population
  that is not empty, with no extremes stored yet, the handler sets both extremes to the
  common value and the second pass divides by their difference.
\<close>

theorem normalize_scores_degenerate:
  assumes ne: "individuals self \<noteq> []"
    and same: "\<forall>x \<in> set (individuals self). individual_getattr x score = Inr v"
    and fresh: "map_of (pattrs self) (''min_'' @ score) = None"
  shows "normalize_scores (Suc (Suc depth)) self score inplace =
    (Inl ZeroDivisionError,
     self\<lparr>pattrs := AList.update (''min_'' @ score) v
                      (AList.update (''max_'' @ score) v (pattrs self))\<rparr>)"
proof -
  let ?s = "self\<lparr>pattrs := AList.update (''min_'' @ score) v
                      (AList.update (''max_'' @ score) v (pattrs self))\<rparr>"
  have t1: "normalize_try self score inplace = (Inl AttributeError, self)"
    using fresh by (simp add: normalize_try_def population_getattr_def)
  have ext: "set_extremes self score = (Inr (), ?s)"
    using ne same by (rule set_extremes_const)
  have mn: "population_getattr ?s (''min_'' @ score) = Inr v"
    by (simp add: population_getattr_def update_conv')
  have mx: "population_getattr ?s (''max_'' @ score) = Inr v"
    by (simp add: population_getattr_def update_conv')
  have "hd (individuals self) \<in> set (individuals self)" using ne by simp
  then have "individual_getattr (hd (individuals self)) score = Inr v" using same by blast
  then have "minmax_individual score v v (hd (individuals self)) = Inl ZeroDivisionError"
    by (simp add: minmax_individual_def py_truediv_def)
  then have mr: "map_raise (minmax_individual score v v) (individuals self) = Inl ZeroDivisionError"
    using ne by (simp add: map_raise_first_error)
  have t2: "normalize_try ?s score True = (Inl ZeroDivisionError, ?s)"
    unfolding normalize_try_def mn mx using mr by simp
  have inner: "normalize_scores (Suc depth) ?s score True = (Inl ZeroDivisionError, ?s)"
    using t2 by simp
  show ?thesis
    using t1 ext inner by simp
qed

theorem normalize_scores_degenerate_witness:
  "individuals \<lparr>individuals = [scored 0, scored 0], pattrs = []\<rparr> \<noteq> []
   \<and> individual_getattr (scored 0) ''fitness'' = Inr 0
   \<and> map_of (pattrs \<lparr>individuals = [scored 0, scored 0], pattrs = []\<rparr>) (''min_'' @ ''fitness'') = None
   \<and> normalize_scores (Suc (Suc 0)) \<lparr>individuals = [scored 0, scored 0], pattrs = []\<rparr> ''fitness'' True =
       (Inl ZeroDivisionError,
        \<lparr>individuals = [scored 0, scored 0], pattrs = [(''max_fitness'', 0), (''min_fitness'', 0)]\<rparr>)"
proof -
  let ?p = "\<lparr>individuals = [scored 0, scored 0], pattrs = []\<rparr> :: nat population"
  have a: "individuals ?p \<noteq> []" by simp
  have g: "individual_getattr (scored 0) ''fitness'' = Inr 0"
    by (simp add: individual_getattr_def scored_def)
  have b: "\<forall>x \<in> set (individuals ?p). individual_getattr x ''fitness'' = Inr 0"
    using g by simp
  have c: "map_of (pattrs ?p) (''min_'' @ ''fitness'') = None" by simp
  show ?thesis
    using a g c normalize_scores_degenerate [OF a b c, of 0 True]
    by (simp del: normalize_scores.simps)
qed

lemma py_sorted_three: "py_sorted snd [(a, 2::rat), (b, 4), (c, 6)] = [(a, 2), (b, 4), (c, 6)]"
  by (simp add: py_sorted_def)


text \<open>
  Claim C6: \<^verbatim>\<open>normalize_scores\<close> with \<^verbatim>\<open>inplace=False\<close> leaves the population untouched
  and returns the normalised copies, also on the first use. On the first use the code
  does neither: for the scores 2, 4, 6 it returns \<^verbatim>\<open>None\<close> and the population holds the
  normalised copies.
\<close>

theorem normalize_scores_first_use:
  "normalize_scores (Suc (Suc depth)) \<lparr>individuals = [scored 2, scored 4, scored 6], pattrs = []\<rparr>
     ''_fitness'' False =
   (Inr None,
    \<lparr>individuals = [scored 0, scored (1 / 2), scored 1],
     pattrs = [(''max__fitness'', 6), (''min__fitness'', 2)]\<rparr>)"
proof -
  let ?p = "\<lparr>individuals = [scored 2, scored 4, scored 6], pattrs = []\<rparr> :: nat population"
  let ?s = "\<lparr>individuals = [scored 2, scored 4, scored 6],
             pattrs = [(''max__fitness'', 6), (''min__fitness'', 2)]\<rparr> :: nat population"
  let ?r = "\<lparr>individuals = [scored 0, scored (1 / 2), scored 1],
             pattrs = [(''max__fitness'', 6), (''min__fitness'', 2)]\<rparr> :: nat population"
  have t1: "normalize_try ?p ''_fitness'' False = (Inl AttributeError, ?p)"
    by (simp add: normalize_try_def population_getattr_def)
  have ext: "set_extremes ?p ''_fitness'' = (Inr (), ?s)"
    by (simp add: set_extremes_def individual_getattr_def scored_def py_sorted_three)
  have mm: "map_raise (minmax_individual ''_fitness'' 2 6) [scored 2, scored 4, scored 6]
            = Inr [scored 0, scored (1 / 2), scored 1 :: nat individual]"
    by (simp add: minmax_individual_def individual_getattr_def individual_setattr_def
        py_truediv_def scored_def)
  have t2: "normalize_try ?s ''_fitness'' True = (Inr None, ?r)"
    by (simp add: normalize_try_def population_getattr_def mm update_population_def
        isinstance_Individual_def del: map_raise.simps)
  have inner: "normalize_scores (Suc depth) ?s ''_fitness'' True = (Inr None, ?r)"
    using t2 by simp
  show ?thesis
    using t1 ext inner by simp
qed


text \<open>
  As long as no minimum is stored for the score, the argument \<^verbatim>\<open>inplace\<close> has no effect:
  the handler runs the in-place pass whatever its value.
\<close>

lemma normalize_scores_inplace_ignored:
  assumes "map_of (pattrs self) (''min_'' @ score) = None"
  shows "normalize_scores depth self score False = normalize_scores depth self score True"
proof (cases depth)
  case 0
  then show ?thesis by simp
next
  case (Suc d)
  have "normalize_try self score False = (Inl AttributeError, self)"
    and "normalize_try self score True = (Inl AttributeError, self)"
    using assms by (simp_all add: normalize_try_def population_getattr_def)
  then show ?thesis using Suc by simp
qed

text \<open>With the extremes stored, the same call returns the copies and changes nothing.\<close>

lemma normalize_scores_cached:
  assumes "population_getattr self (''min_'' @ score) = Inr min_value"
    and "population_getattr self (''max_'' @ score) = Inr max_value"
    and "map_raise (minmax_individual score min_value max_value) (individuals self) = Inr new_population"
  shows "normalize_scores (Suc depth) self score False = (Inr (Some new_population), self)"
  using assms by (simp add: normalize_try_def)


subsection \<open>Ranking\<close>

lemma sorted_wrt_filter_iff:
  "sorted_wrt R (filter P xs) = sorted_wrt (\<lambda>x y. P x \<longrightarrow> P y \<longrightarrow> R x y) xs"
  by (induction xs) auto

lemma py_sorted_reverse_set [simp]: "set (py_sorted_reverse key xs) = set xs"
  by (simp add: py_sorted_reverse_def)

lemma py_sorted_reverse_length [simp]: "length (py_sorted_reverse key xs) = length xs"
  by (simp add: py_sorted_reverse_def)

lemma py_sorted_reverse_distinct [simp]: "distinct (py_sorted_reverse key xs) = distinct xs"
  by (simp add: py_sorted_reverse_def)

lemma py_sorted_reverse_descending:
  "sorted_wrt (\<lambda>x y. key y \<le> key x) (py_sorted_reverse key xs)"
proof -
  have "sorted (map key (sort_key key (rev xs)))"
    by (rule sorted_sort_key)
  then have "sorted_wrt (\<lambda>x y. key x \<le> key y) (sort_key key (rev xs))"
    by (simp add: sorted_map)
  then show ?thesis
    by (simp add: py_sorted_reverse_def sorted_wrt_rev)
qed

lemma py_sorted_reverse_stable:
  "filter (\<lambda>y. key y = k) (py_sorted_reverse key xs) = filter (\<lambda>y. key y = k) xs"
  by (simp add: py_sorted_reverse_def rev_filter [symmetric] sort_key_stable)

lemma py_sorted_reverse_ties:
  assumes "sorted_wrt (<) (xs :: nat list)"
  shows "sorted_wrt (\<lambda>x y. key x = key y \<longrightarrow> x < y) (py_sorted_reverse key xs)"
proof -
  let ?ys = "py_sorted_reverse key xs"
  have "\<And>k. sorted_wrt (\<lambda>x y. key x = k \<longrightarrow> key y = k \<longrightarrow> x < y) ?ys"
  proof -
    fix k
    have "sorted_wrt (<) (filter (\<lambda>y. key y = k) ?ys)"
      using assms by (simp add: py_sorted_reverse_stable sorted_wrt_filter)
    then show "sorted_wrt (\<lambda>x y. key x = k \<longrightarrow> key y = k \<longrightarrow> x < y) ?ys"
      by (simp add: sorted_wrt_filter_iff)
  qed
  then show ?thesis
    unfolding sorted_wrt_iff_nth_less by metis
qed

lemma py_sorted_reverse_order:
  assumes "sorted_wrt (<) (xs :: nat list)"
  shows "sorted_wrt (\<lambda>x y. key y < key x \<or> (key x = key y \<and> x < y)) (py_sorted_reverse key xs)"
  using py_sorted_reverse_descending [of key xs] py_sorted_reverse_ties [OF assms, of key]
  unfolding sorted_wrt_iff_nth_less by (metis order_le_less)

lemma fold_rank_length [simp]:
  "length (fold (\<lambda>(ranking, i) inds. inds[i := g ranking i inds]) ps inds) = length inds"
  by (induction ps arbitrary: inds) (auto split: prod.splits)

lemma fold_rank_other:
  "i \<notin> snd ` set ps \<Longrightarrow>
   fold (\<lambda>(ranking, i) inds. inds[i := g ranking i inds]) ps inds ! i = inds ! i"
  by (induction ps arbitrary: inds) (auto split: prod.splits)

lemma fold_rank_nth:
  assumes "distinct order" "r < length order" "order ! r < length inds"
  shows "fold (\<lambda>(ranking, i) inds. inds[i := f (inds ! i) ranking]) (enumerate n order) inds ! (order ! r)
         = f (inds ! (order ! r)) (n + r)"
  using assms
proof (induction order arbitrary: n r inds)
  case Nil
  then show ?case by simp
next
  case (Cons a order)
  show ?case
  proof (cases r)
    case 0
    have "a \<notin> snd ` set (enumerate (Suc n) order)"
      using Cons.prems(1) by (auto simp: in_set_enumerate_eq)
    then show ?thesis
      using 0 Cons.prems by (simp add: fold_rank_other)
  next
    case (Suc r')
    then have "order ! r' \<noteq> a" using Cons.prems by auto
    then show ?thesis
      using Suc Cons.prems Cons.IH [of r' "inds[a := f (inds ! a) n]" "Suc n"] by simp
  qed
qed

lemma update_ranking_nth:
  assumes "r < length (individuals self)"
  shows "individuals (update_ranking self) !
           (py_sorted_reverse (\<lambda>i. fitness (individuals self ! i)) [0..<length (individuals self)] ! r)
         = (individuals self !
           (py_sorted_reverse (\<lambda>i. fitness (individuals self ! i)) [0..<length (individuals self)] ! r))
             \<lparr>rank := of_nat r\<rparr>"
proof -
  let ?order = "py_sorted_reverse (\<lambda>i. fitness (individuals self ! i)) [0..<length (individuals self)]"
  have d: "distinct ?order" by simp
  have l: "r < length ?order" using assms by simp
  have "?order ! r \<in> set ?order" using l by (rule nth_mem)
  then have b: "?order ! r < length (individuals self)" by simp
  show ?thesis
    using fold_rank_nth [OF d l b, of "\<lambda>x k. Individual_update_ranking x (of_nat k)" 0]
    by (simp add: update_ranking_def Individual_update_ranking_def)
qed


text \<open>
  Claim C7: \<^verbatim>\<open>update_ranking\<close> on a population of \<open>N\<close> candidates gives each member a
  rank among \<open>0, \<dots>, N - 1\<close>, no two members the same; every rank is taken; a member of
  rank \<open>0\<close> has maximal fitness and a member of rank \<open>N - 1\<close> minimal fitness; among members
  of equal fitness the earlier in the population has the smaller rank. Nothing else in a
  member changes. The last conjunct says all of the order at once: a member ranks before
  another exactly when it is fitter, or as fit and earlier.
\<close>

theorem update_ranking_ranks:
  fixes self :: "'net population"
  shows "length (individuals (update_ranking self)) = length (individuals self) \<and>
    pattrs (update_ranking self) = pattrs self \<and>
    (\<forall>i < length (individuals self). \<exists>r < length (individuals self).
        individuals (update_ranking self) ! i = (individuals self ! i)\<lparr>rank := of_nat r\<rparr>) \<and>
    (\<forall>r < length (individuals self). \<exists>i < length (individuals self).
        rank (individuals (update_ranking self) ! i) = of_nat r) \<and>
    (\<forall>i < length (individuals self). \<forall>j < length (individuals self).
        i \<noteq> j \<longrightarrow> rank (individuals (update_ranking self) ! i) \<noteq> rank (individuals (update_ranking self) ! j)) \<and>
    (\<forall>i < length (individuals self). \<forall>j < length (individuals self).
        rank (individuals (update_ranking self) ! i) = 0 \<longrightarrow>
        fitness (individuals self ! j) \<le> fitness (individuals self ! i)) \<and>
    (\<forall>i < length (individuals self). \<forall>j < length (individuals self).
        rank (individuals (update_ranking self) ! i) = of_nat (length (individuals self) - 1) \<longrightarrow>
        fitness (individuals self ! i) \<le> fitness (individuals self ! j)) \<and>
    (\<forall>i < length (individuals self). \<forall>j < length (individuals self).
        (rank (individuals (update_ranking self) ! i) < rank (individuals (update_ranking self) ! j)) =
        (fitness (individuals self ! j) < fitness (individuals self ! i) \<or>
         (fitness (individuals self ! i) = fitness (individuals self ! j) \<and> i < j)))"
proof -
  let ?inds = "individuals self"
  let ?N = "length ?inds"
  let ?key = "\<lambda>i. fitness (?inds ! i)"
  let ?order = "py_sorted_reverse ?key [0..<?N]"
  let ?new = "individuals (update_ranking self)"
  let ?R = "\<lambda>x y. ?key y < ?key x \<or> (?key x = ?key y \<and> x < y)"
  have len: "length ?new = ?N"
    by (simp add: update_ranking_def)
  have pat: "pattrs (update_ranking self) = pattrs self"
    by (simp add: update_ranking_def)
  have olen: "length ?order = ?N" by simp
  have oset: "set ?order = {0..<?N}" by simp
  have odist: "distinct ?order" by simp
  have at: "\<And>r. r < ?N \<Longrightarrow> ?new ! (?order ! r) = (?inds ! (?order ! r))\<lparr>rank := of_nat r\<rparr>"
    by (rule update_ranking_nth)
  have pos: "\<And>i. i < ?N \<Longrightarrow> \<exists>r < ?N. ?order ! r = i"
  proof -
    fix i assume "i < ?N"
    then have "i \<in> set ?order" by simp
    then show "\<exists>r < ?N. ?order ! r = i"
      unfolding in_set_conv_nth olen by blast
  qed
  have ord: "\<And>a b. a < b \<Longrightarrow> b < ?N \<Longrightarrow> ?R (?order ! a) (?order ! b)"
    using py_sorted_reverse_order [of "[0..<?N]" ?key]
    unfolding sorted_wrt_iff_nth_less olen by simp
  have inj: "\<And>a b. a < ?N \<Longrightarrow> b < ?N \<Longrightarrow> ?order ! a = ?order ! b \<Longrightarrow> a = b"
    using odist olen by (simp add: nth_eq_iff_index_eq)
  have c3: "\<forall>i < ?N. \<exists>r < ?N. ?new ! i = (?inds ! i)\<lparr>rank := of_nat r\<rparr>"
    using pos at by metis
  have c4: "\<forall>r < ?N. \<exists>i < ?N. rank (?new ! i) = of_nat r"
  proof (intro allI impI)
    fix r assume r: "r < ?N"
    then have "?order ! r \<in> set ?order" using olen nth_mem by metis
    then have "?order ! r < ?N" unfolding oset by simp
    moreover have "rank (?new ! (?order ! r)) = of_nat r" using at [OF r] by simp
    ultimately show "\<exists>i < ?N. rank (?new ! i) = of_nat r" by blast
  qed
  have lt: "\<And>a b. a < ?N \<Longrightarrow> b < ?N \<Longrightarrow>
      (rank (?new ! (?order ! a)) < rank (?new ! (?order ! b))) = (a < b)"
    using at by simp
  have eq: "\<And>a b. a < ?N \<Longrightarrow> b < ?N \<Longrightarrow>
      (rank (?new ! (?order ! a)) = rank (?new ! (?order ! b))) = (a = b)"
    using at by simp
  have c5: "\<forall>i < ?N. \<forall>j < ?N. i \<noteq> j \<longrightarrow> rank (?new ! i) \<noteq> rank (?new ! j)"
  proof (intro allI impI)
    fix i j assume i: "i < ?N" and j: "j < ?N" and ne: "i \<noteq> j"
    obtain a where a: "a < ?N" "?order ! a = i" using pos [OF i] by blast
    obtain b where b: "b < ?N" "?order ! b = j" using pos [OF j] by blast
    have "a \<noteq> b" using a b ne by auto
    then show "rank (?new ! i) \<noteq> rank (?new ! j)"
      using eq [OF a(1) b(1)] a(2) b(2) by simp
  qed
  have c8: "\<forall>i < ?N. \<forall>j < ?N.
      (rank (?new ! i) < rank (?new ! j)) = ?R i j"
  proof (intro allI impI)
    fix i j assume i: "i < ?N" and j: "j < ?N"
    obtain a where a: "a < ?N" "?order ! a = i" using pos [OF i] by blast
    obtain b where b: "b < ?N" "?order ! b = j" using pos [OF j] by blast
    have l: "(rank (?new ! i) < rank (?new ! j)) = (a < b)"
      using lt [OF a(1) b(1)] a(2) b(2) by simp
    show "(rank (?new ! i) < rank (?new ! j)) = ?R i j"
    proof (cases "a < b")
      case True
      then show ?thesis using l ord [OF True b(1)] a(2) b(2) by simp
    next
      case False
      show ?thesis
      proof (cases "a = b")
        case True
        then have "i = j" using a b by simp
        then show ?thesis using l True by simp
      next
        case ne: False
        then have "b < a" using False by simp
        then have "?R j i" using ord [of b a] a b by simp
        then have "\<not> ?R i j" by auto
        then show ?thesis using l False by simp
      qed
    qed
  qed
  have c6: "\<forall>i < ?N. \<forall>j < ?N. rank (?new ! i) = 0 \<longrightarrow> ?key j \<le> ?key i"
  proof (intro allI impI)
    fix i j assume i: "i < ?N" and j: "j < ?N" and z: "rank (?new ! i) = 0"
    obtain b where b: "b < ?N" "?order ! b = j" using pos [OF j] by blast
    have "rank (?new ! j) = of_nat b" using at [OF b(1)] b(2) by simp
    then have "\<not> rank (?new ! j) < rank (?new ! i)" using z by simp
    then have "\<not> ?R j i" using c8 i j by simp
    then show "?key j \<le> ?key i" by auto
  qed
  have c7: "\<forall>i < ?N. \<forall>j < ?N. rank (?new ! i) = of_nat (?N - 1) \<longrightarrow> ?key i \<le> ?key j"
  proof (intro allI impI)
    fix i j assume i: "i < ?N" and j: "j < ?N" and z: "rank (?new ! i) = of_nat (?N - 1)"
    obtain b where b: "b < ?N" "?order ! b = j" using pos [OF j] by blast
    have "rank (?new ! j) = of_nat b" using at [OF b(1)] b(2) by simp
    moreover have "b \<le> ?N - 1" using b(1) by simp
    ultimately have "\<not> rank (?new ! i) < rank (?new ! j)" using z by simp
    then have "\<not> ?R i j" using c8 i j by simp
    then show "?key i \<le> ?key j" by auto
  qed
  show ?thesis
    using len pat c3 c4 c5 c6 c7 c8 by blast
qed

theorem update_ranking_ranks_witness:
  "(1::nat) < length (individuals \<lparr>individuals = [scored 1, scored 3, scored 3], pattrs = []\<rparr>)
   \<and> (2::nat) < length (individuals \<lparr>individuals = [scored 1, scored 3, scored 3], pattrs = []\<rparr>)
   \<and> fitness (individuals \<lparr>individuals = [scored 1, scored 3, scored 3], pattrs = []\<rparr> ! 1)
       = fitness (individuals \<lparr>individuals = [scored 1, scored 3, scored 3], pattrs = []\<rparr> ! 2)
   \<and> rank (individuals (update_ranking \<lparr>individuals = [scored 1, scored 3, scored 3], pattrs = []\<rparr>) ! 1)
       < rank (individuals (update_ranking \<lparr>individuals = [scored 1, scored 3, scored 3], pattrs = []\<rparr>) ! 2)
   \<and> fitness (individuals \<lparr>individuals = [scored 1, scored 3, scored 3], pattrs = []\<rparr> ! 0)
       < fitness (individuals \<lparr>individuals = [scored 1, scored 3, scored 3], pattrs = []\<rparr> ! 2)
   \<and> rank (individuals (update_ranking \<lparr>individuals = [scored 1, scored 3, scored 3], pattrs = []\<rparr>) ! 2)
       < rank (individuals (update_ranking \<lparr>individuals = [scored 1, scored 3, scored 3], pattrs = []\<rparr>) ! 0)"
proof -
  let ?p = "\<lparr>individuals = [scored 1, scored 3, scored 3], pattrs = []\<rparr> :: nat population"
  have order: "\<forall>i < length (individuals ?p). \<forall>j < length (individuals ?p).
        (rank (individuals (update_ranking ?p) ! i) < rank (individuals (update_ranking ?p) ! j)) =
        (fitness (individuals ?p ! j) < fitness (individuals ?p ! i) \<or>
         (fitness (individuals ?p ! i) = fitness (individuals ?p ! j) \<and> i < j))"
    using update_ranking_ranks [of ?p] by blast
  have l1: "(1::nat) < length (individuals ?p)" and l2: "(2::nat) < length (individuals ?p)"
    and l0: "(0::nat) < length (individuals ?p)"
    by simp_all
  have f12: "fitness (individuals ?p ! 1) = fitness (individuals ?p ! 2)"
    by (simp add: scored_def)
  have f02: "fitness (individuals ?p ! 0) < fitness (individuals ?p ! 2)"
    by (simp add: scored_def)
  have r12: "rank (individuals (update_ranking ?p) ! 1) < rank (individuals (update_ranking ?p) ! 2)"
    using order l1 l2 f12 by simp
  have r20: "rank (individuals (update_ranking ?p) ! 2) < rank (individuals (update_ranking ?p) ! 0)"
    using order l2 l0 f02 by blast
  show ?thesis
    using l1 l2 f12 r12 f02 r20 by blast
qed


subsection \<open>Fitness of a population\<close>

lemma update_fitness_loop_append:
  assumes "\<forall>x \<in> set xs. \<not> isl (metric (net x))"
    and "ys \<noteq> [] \<longrightarrow> isl (metric (net (hd ys)))"
  shows "update_fitness_loop metric (xs @ ys) =
    ((if ys = [] then Inr () else Inl (projl (metric (net (hd ys))))),
     map (\<lambda>x. x\<lparr>fitness := projr (metric (net x))\<rparr>) xs @ ys)"
  using assms
proof (induction xs)
  case Nil
  then show ?case
    by (cases ys) (auto simp: Individual_update_fitness_def split: sum.splits)
next
  case (Cons x xs)
  then show ?case
    by (auto simp: Individual_update_fitness_def split: sum.splits)
qed


text \<open>
  Claim C8, as amended: \<^verbatim>\<open>Population.update_fitness\<close> applies the metric member by
  member in the order of the population. When the metric succeeds on every member, each
  member's fitness is the metric of its net. When it fails on a member, that failure
  propagates, the members before it keep their new fitness, and that member and those
  after it are unchanged.
\<close>

theorem update_fitness_prefix:
  assumes "individuals self = xs @ ys"
    and "\<forall>x \<in> set xs. \<not> isl (metric (net x))"
    and "ys \<noteq> [] \<longrightarrow> isl (metric (net (hd ys)))"
  shows "update_fitness self metric =
    ((if ys = [] then Inr () else Inl (projl (metric (net (hd ys))))),
     self\<lparr>individuals := map (\<lambda>x. x\<lparr>fitness := projr (metric (net x))\<rparr>) xs @ ys\<rparr>)"
  using update_fitness_loop_append [OF assms(2,3)] assms(1)
  by (simp add: update_fitness_def)

theorem update_fitness_prefix_witness:
  "individuals \<lparr>individuals = [Individual 2 [] 0, Individual 0 [] 0, Individual 4 [] 0], pattrs = []\<rparr>
     = [Individual 2 [] 0] @ [Individual 0 [] 0, Individual 4 [] 0]
   \<and> \<not> isl (inverse_metric (net (Individual 2 [] 0)))
   \<and> isl (inverse_metric (net (hd [Individual 0 [] 0 :: nat individual, Individual 4 [] 0])))
   \<and> update_fitness \<lparr>individuals = [Individual 2 [] 0, Individual 0 [] 0, Individual 4 [] 0], pattrs = []\<rparr>
        inverse_metric =
      (Inl ZeroDivisionError,
       \<lparr>individuals = [(Individual 2 [] 0)\<lparr>fitness := 1 / 2\<rparr>, Individual 0 [] 0, Individual 4 [] 0],
        pattrs = []\<rparr>)"
proof -
  let ?p = "\<lparr>individuals = [Individual 2 [] 0, Individual 0 [] 0, Individual 4 [] 0], pattrs = []\<rparr>
            :: nat population"
  let ?xs = "[Individual 2 [] 0] :: nat individual list"
  let ?ys = "[Individual 0 [] 0, Individual 4 [] 0] :: nat individual list"
  have a: "individuals ?p = ?xs @ ?ys" by simp
  have m2: "inverse_metric (net (Individual 2 [] 0)) = Inr (1 / 2)"
    by (simp add: inverse_metric_def py_truediv_def Individual_def)
  have m0: "inverse_metric (net (Individual 0 [] 0)) = Inl ZeroDivisionError"
    by (simp add: inverse_metric_def py_truediv_def Individual_def)
  have b: "\<forall>x \<in> set ?xs. \<not> isl (inverse_metric (net x))" using m2 by simp
  have c: "?ys \<noteq> [] \<longrightarrow> isl (inverse_metric (net (hd ?ys)))" using m0 by simp
  show ?thesis
    using update_fitness_prefix [OF a b c] m2 m0 by simp
qed


text \<open>
  The claim as stated asks that no fitness change when the metric fails; here the metric
  fails on the second member and the first member's fitness has changed from 0 to 1/2.
\<close>

theorem update_fitness_counterexample:
  "fst (update_fitness
         \<lparr>individuals = [Individual 2 [] 0, Individual 0 [] 0, Individual 4 [] 0], pattrs = []\<rparr>
         inverse_metric) = Inl ZeroDivisionError
   \<and> fitness (individuals (snd (update_fitness
         \<lparr>individuals = [Individual 2 [] 0, Individual 0 [] 0, Individual 4 [] 0], pattrs = []\<rparr>
         inverse_metric)) ! 0) = 1 / 2
   \<and> fitness (individuals
         \<lparr>individuals = [Individual 2 [] 0, Individual 0 [] 0, Individual 4 [] 0 :: nat individual],
          pattrs = []\<rparr> ! 0) = 0"
  by (simp add: update_fitness_def Individual_update_fitness_def Individual_def inverse_metric_def
      py_truediv_def)


subsection \<open>Tournament\<close>

text \<open>
  Claim C9, as amended: on a population that is not empty, with a tournament size of 5,
  \<^verbatim>\<open>tournament\<close> succeeds and returns 5 candidates, each a member of the population.
\<close>

theorem tournament_nonempty:
  "population \<noteq> [] \<Longrightarrow> tournament_size self = 5 \<Longrightarrow>
   \<exists>t. tournament self rng population = Inr t \<and> length t = 5 \<and> set t \<subseteq> set population"
  by (auto simp: tournament_def np_random_choice_def)

theorem tournament_nonempty_witness:
  "[scored 1, scored 2, scored 3] \<noteq> [] \<and> tournament_size genetic_ab = 5
   \<and> (\<exists>t. tournament genetic_ab rng_zero [scored 1, scored 2, scored 3] = Inr t \<and> length t = 5
          \<and> set t \<subseteq> set [scored 1, scored 2, scored 3])"
  using tournament_nonempty [of "[scored 1, scored 2, scored 3]" genetic_ab rng_zero]
  by (simp add: genetic_ab_def)


text \<open>The claim as stated covers every population; on the empty one the sampling raises.\<close>

theorem tournament_empty_counterexample:
  "tournament genetic_ab rng_zero ([] :: nat individual list) = Inl ValueError"
  by (simp add: tournament_def np_random_choice_def genetic_ab_def)


subsection \<open>Construction of a population\<close>

lemma generate_population_example:
  "generate_population example_env fresh_individual = Inr (replicate 20 (candidate [''a'', ''b'']))"
  unfolding generate_population_def example_env_def
  by (simp add: zip_replicate map_replicate fresh_individual_def candidate_def)


text \<open>
  Claim C10, as amended: with \<^verbatim>\<open>init_population=True\<close> the constructor stores a population
  generated from the interface, asked for twenty samples; for every falsy value of
  \<^verbatim>\<open>init_population\<close> (\<^verbatim>\<open>False\<close> or an empty collection) it stores that value as given,
  without a call of the interface and without a check of the elements, so that an empty
  population can be created through the constructor.
\<close>

theorem Population_init_cases:
  "Population_init space individual_cls (PyBool True :: 'a init_population) =
     (case generate_population space individual_cls of
        Inl e \<Rightarrow> Inl e | Inr generated \<Rightarrow> Inr (Generated generated))
   \<and> (\<not> truthy (init_population :: 'a init_population) \<longrightarrow>
        Population_init space individual_cls init_population = Inr (Supplied init_population))"
  by (simp add: Population_init_def)

theorem Population_init_cases_witness:
  "\<not> truthy (PyList ([] :: nat individual list))
   \<and> Population_init example_env fresh_individual (PyList ([] :: nat individual list)) = Inr (Supplied (PyList []))
   \<and> Population_init example_env fresh_individual (PyBool True :: nat individual init_population)
       = Inr (Generated (replicate 20 (candidate [''a'', ''b''])))"
  using Population_init_cases [of example_env fresh_individual "PyList ([] :: nat individual list)"]
  by (simp add: generate_population_example)


text \<open>
  The claim as stated has it the other way round: here the empty collection is stored as
  given, and the collection of one candidate is replaced by twenty generated ones.
\<close>

theorem Population_init_counterexample:
  "Population_init example_env fresh_individual (PyList ([] :: nat individual list)) = Inr (Supplied (PyList []))
   \<and> Population_init example_env fresh_individual (PyList [candidate [''b'', ''b'']])
       = Inr (Generated (replicate 20 (candidate [''a'', ''b''])))"
  by (simp add: Population_init_def generate_population_example)

end
